theory Spec2Isabelle
  imports Main
begin

section \<open>Python values used by the chat backend\<close>

text \<open>
  Python strings are modelled as \<^typ>\<open>string\<close>: a list of characters with code points
  0..255. \<open>str.strip()\<close> without arguments removes leading and trailing characters for
  which \<open>str.isspace\<close> holds; below code point 256 these are TAB, LF, VT, FF, CR,
  FS, GS, RS, US, SPACE, NEL (0x85) and NBSP (0xA0).
\<close>

definition is_space :: "char \<Rightarrow> bool" where
  "is_space c \<longleftrightarrow>
     (of_char c :: nat) \<in> {9, 10, 11, 12, 13, 28, 29, 30, 31, 32, 133, 160}"

definition strip :: "string \<Rightarrow> string" where
  "strip s = rev (dropWhile is_space (rev (dropWhile is_space s)))"

text \<open>
  The request body \<open>data = request.get_json()\<close> is a JSON object whose fields, when
  present, are strings: an association list from keys to values, empty for \<open>{}\<close>. A
  field of another JSON type is outside this model. \<open>data.get(k, default)\<close>:
\<close>

definition dict_get :: "(string \<times> string) list \<Rightarrow> string \<Rightarrow> string \<Rightarrow> string" where
  "dict_get data k dflt = (case map_of data k of None \<Rightarrow> dflt | Some v \<Rightarrow> v)"

section \<open>utils/db.py: the persistence store\<close>

text \<open>
  \<open>datetime.now().isoformat()\<close> yields a text whose lexicographic order is the order of
  the clock readings; a reading is modelled as a natural number. The reading and the
  \<open>uuid4()\<close> value are passed to the operations that draw them in the source.
\<close>

type_synonym timestamp = nat

text \<open>
  Rows of the tables \<open>chats\<close>, \<open>messages\<close> and \<open>chat_metadata\<close> (as \<open>dict(row)\<close>). The
  column \<open>id\<close> is \<open>id'\<close> for a chat and \<open>msg_id\<close> for a message, and the key of a
  metadata row is \<open>md_chat_id\<close>; the message row is also the dataclass \<open>Message\<close>.
\<close>

record chat_row =
  id' :: string
  user_id :: int
  created_at :: timestamp
  updated_at :: timestamp

record message =
  msg_id :: nat
  chat_id :: string
  role :: string
  content :: string
  timestamp :: timestamp

record metadata_row =
  md_chat_id :: string
  last_url :: string
  last_scraped_content :: string

text \<open>
  The database: the three tables in rowid order, and the AUTOINCREMENT counter of
  \<open>messages.id\<close>.
\<close>

record db =
  chats :: "chat_row list"
  messages :: "message list"
  chat_metadata :: "metadata_row list"
  messages_seq :: nat

definition init_db :: db where
  "init_db = \<lparr>chats = [], messages = [], chat_metadata = [], messages_seq = 0\<rparr>"

datatype db_error = IntegrityError

definition sanitize_db_input :: "string \<Rightarrow> string" where
  "sanitize_db_input text =
     (if text = [] then []
      else strip (filter (\<lambda>c. c \<noteq> CHR 0x00) text))"

text \<open>
  \<open>create_chat\<close>: \<open>chats.id\<close> is the primary key, so the INSERT raises
  \<open>sqlite3.IntegrityError\<close> when the drawn id is already present.
\<close>

definition create_chat :: "int \<Rightarrow> string \<Rightarrow> timestamp \<Rightarrow> db \<Rightarrow> db_error + (string \<times> db)" where
  "create_chat uid new_id now d =
     (if new_id \<in> set (map id' (chats d)) then Inl IntegrityError
      else Inr (new_id,
        d\<lparr>chats := chats d @
            [\<lparr>id' = new_id, user_id = uid, created_at = now, updated_at = now\<rparr>]\<rparr>))"

text \<open>
  \<open>get_user_chats\<close>: \<open>WHERE user_id = ? ORDER BY updated_at DESC\<close>. Rows with equal
  \<open>updated_at\<close> are kept in rowid order: the rows are reversed, sorted ascending by a
  stable sort, and reversed again.
\<close>

definition get_user_chats :: "int \<Rightarrow> db \<Rightarrow> chat_row list" where
  "get_user_chats uid d =
     rev (sort_key updated_at (rev (filter (\<lambda>r. user_id r = uid) (chats d))))"

text \<open>
  \<open>get_chat_messages\<close>: \<open>WHERE chat_id = ? ORDER BY timestamp ASC\<close>. Rows with equal
  timestamps are kept in rowid order.
\<close>

definition get_chat_messages :: "string \<Rightarrow> db \<Rightarrow> message list" where
  "get_chat_messages cid d =
     sort_key timestamp (filter (\<lambda>m. chat_id m = cid) (messages d))"

definition add_message :: "string \<Rightarrow> string \<Rightarrow> string \<Rightarrow> timestamp \<Rightarrow> db \<Rightarrow> db" where
  "add_message cid r c now d =
     d\<lparr>messages := messages d @
          [\<lparr>msg_id = Suc (messages_seq d), chat_id = cid, role = r,
            content = sanitize_db_input c, timestamp = now\<rparr>],
       messages_seq := Suc (messages_seq d)\<rparr>"

definition update_chat_timestamp :: "string \<Rightarrow> timestamp \<Rightarrow> db \<Rightarrow> db" where
  "update_chat_timestamp cid now d =
     d\<lparr>chats := map (\<lambda>r. if id' r = cid then r\<lparr>updated_at := now\<rparr> else r) (chats d)\<rparr>"

text \<open>
  \<open>save_chat_metadata\<close>: \<open>INSERT OR REPLACE\<close> on the primary key \<open>chat_id\<close> deletes the
  rows with that key and inserts the new one.
\<close>

definition save_chat_metadata :: "string \<Rightarrow> string \<Rightarrow> string \<Rightarrow> db \<Rightarrow> db" where
  "save_chat_metadata cid url c d =
     d\<lparr>chat_metadata := filter (\<lambda>r. md_chat_id r \<noteq> cid) (chat_metadata d) @
          [\<lparr>md_chat_id = cid, last_url = sanitize_db_input url,
            last_scraped_content = sanitize_db_input c\<rparr>]\<rparr>"

definition get_chat_metadata :: "string \<Rightarrow> db \<Rightarrow> metadata_row option" where
  "get_chat_metadata cid d = find (\<lambda>r. md_chat_id r = cid) (chat_metadata d)"

section \<open>models/chat.py\<close>

text \<open>
  The dataclass \<open>Chat\<close>: the columns of a chat row and the optional list \<open>messages\<close>
  (here \<open>chat_messages\<close>). \<open>get_preview\<close> takes the first message when the list is
  present and not empty.
\<close>

record Chat = chat_row +
  chat_messages :: "message list option"

definition get_preview :: "Chat \<Rightarrow> string" where
  "get_preview self =
     (case chat_messages self of
        None \<Rightarrow> ''New Chat''
      | Some [] \<Rightarrow> ''New Chat''
      | Some (m # ms) \<Rightarrow> take 50 (content m) @ ''...'')"

section \<open>routes/chat.py\<close>

text \<open>The collaborators: the scraper's and the responder's result dictionaries.\<close>

datatype scrape_result = ScrapeOk string string | ScrapeFailed string

datatype ai_result = AiOk string | AiFailed string

text \<open>
  What one request draws from its environment: the \<open>uuid4()\<close> value and the clock
  readings of the store operations it may reach, and the behaviour of
  \<open>scraper.scrape_sync\<close> and \<open>openai_helper.generate_response\<close>.
\<close>

record env =
  uuid4 :: string
  now_create_chat :: timestamp
  now_user_message :: timestamp
  now_assistant_message :: timestamp
  now_update_chat :: timestamp
  scrape_sync :: "string \<Rightarrow> scrape_result"
  generate_response :: "string \<Rightarrow> string option \<Rightarrow> (string \<times> string) list \<Rightarrow> ai_result"

text \<open>The JSON responses with their status codes, and the calls made to the collaborators.\<close>

datatype response =
    Success string string
  | Created string
  | Failure nat string

datatype call =
    ScrapeCall string
  | GenerateCall string "string option" "(string \<times> string) list"

definition verify_chat_ownership :: "string \<Rightarrow> int \<Rightarrow> db \<Rightarrow> bool" where
  "verify_chat_ownership cid uid d =
     (case find (\<lambda>r. id' r = cid) (chats d) of
        None \<Rightarrow> False
      | Some row \<Rightarrow> user_id row = uid)"

text \<open>
  The body of \<open>send_message\<close> in the three blocks the source marks with comments.
  Lines 95 to 102, get or create the chat session: \<open>if chat_id:\<close> holds for a
  non-empty string. An exception of \<open>create_chat\<close> reaches \<open>handle_errors\<close>, which
  answers 500 \<open>Internal server error\<close>.
\<close>

definition get_or_create_chat ::
  "env \<Rightarrow> int \<Rightarrow> string option \<Rightarrow> db \<Rightarrow> response + (string \<times> db)" where
  "get_or_create_chat e current_user_id chat_id_field d =
     (case chat_id_field of
        Some cid \<Rightarrow>
          if cid \<noteq> [] then
            (if \<not> verify_chat_ownership cid current_user_id d
             then Inl (Failure 404 ''Chat not found or access denied'')
             else Inr (cid, d))
          else
            (case create_chat current_user_id (uuid4 e) (now_create_chat e) d of
               Inl err \<Rightarrow> Inl (Failure 500 ''Internal server error'')
             | Inr r \<Rightarrow> Inr r)
      | None \<Rightarrow>
          (case create_chat current_user_id (uuid4 e) (now_create_chat e) d of
             Inl err \<Rightarrow> Inl (Failure 500 ''Internal server error'')
           | Inr r \<Rightarrow> Inr r))"

text \<open>
  Lines 111 to 131, handle web scraping: the failure response, or the page context of
  the turn (\<open>None\<close> when there is none) and the database after the cache write.
\<close>

definition handle_web_scraping ::
  "env \<Rightarrow> string \<Rightarrow> string \<Rightarrow> db \<Rightarrow> response + (string option \<times> db)" where
  "handle_web_scraping e url cid d =
     (if url \<noteq> [] then
        (case scrape_sync e url of
           ScrapeFailed err \<Rightarrow> Inl (Failure 400 (''Failed to scrape website: '' @ err))
         | ScrapeOk website_content title \<Rightarrow>
             Inr (Some website_content, save_chat_metadata cid url website_content d))
      else
        (case get_chat_metadata cid d of
           None \<Rightarrow> Inr (None, d)
         | Some metadata \<Rightarrow>
             if last_scraped_content metadata \<noteq> []
             then Inr (Some (last_scraped_content metadata), d)
             else Inr (None, d)))"

text \<open>Lines 133 to 159: generate the answer, then store the turn.\<close>

definition generate_and_store ::
  "env \<Rightarrow> string \<Rightarrow> string \<Rightarrow> string option \<Rightarrow> (string \<times> string) list \<Rightarrow> db
     \<Rightarrow> response \<times> db" where
  "generate_and_store e prompt cid website_content conversation_history d =
     (case generate_response e prompt website_content conversation_history of
        AiFailed err \<Rightarrow> (Failure 500 (''Failed to generate response: '' @ err), d)
      | AiOk text \<Rightarrow>
          (Success text cid,
           update_chat_timestamp cid (now_update_chat e)
             (add_message cid ''assistant'' text (now_assistant_message e)
               (add_message cid ''user'' prompt (now_user_message e) d))))"

text \<open>
  \<open>send_message\<close>: the response, the database afterwards, and the calls made to the
  scraper and the responder, in order.
\<close>

definition send_message ::
  "env \<Rightarrow> int \<Rightarrow> (string \<times> string) list \<Rightarrow> db \<Rightarrow> response \<times> db \<times> call list" where
  "send_message e current_user_id data d =
     (if data = [] then (Failure 400 ''No data provided'', d, [])
      else
        let prompt = strip (dict_get data ''prompt'' '''') in
        if prompt = [] then (Failure 400 ''Prompt is required'', d, [])
        else
          let chat_id_field = map_of data ''chat_id'';
              url = strip (dict_get data ''url'' '''')
          in case get_or_create_chat e current_user_id chat_id_field d of
               Inl resp \<Rightarrow> (resp, d, [])
             | Inr (cid, d1) \<Rightarrow>
                 let conversation_history =
                       map (\<lambda>msg. (role msg, content msg)) (get_chat_messages cid d1);
                     scrape_calls = (if url \<noteq> [] then [ScrapeCall url] else [])
                 in (case handle_web_scraping e url cid d1 of
                       Inl resp \<Rightarrow> (resp, d1, scrape_calls)
                     | Inr (website_content, d2) \<Rightarrow>
                         (case generate_and_store e prompt cid website_content
                                 conversation_history d2 of
                            (resp, d3) \<Rightarrow>
                              (resp, d3, scrape_calls @
                                 [GenerateCall prompt website_content conversation_history]))))"

text \<open>\<open>get_history\<close>: the preview computed for each chat of the listing.\<close>

definition history_preview :: "message list \<Rightarrow> string" where
  "history_preview msgs =
     (case msgs of
        [] \<Rightarrow> ''New Chat''
      | m # ms \<Rightarrow>
          take 50 (content m) @ (if length (content m) > 50 then ''...'' else ''''))"

definition get_history :: "int \<Rightarrow> db \<Rightarrow> (string \<times> timestamp \<times> timestamp \<times> string) list" where
  "get_history uid d =
     map (\<lambda>chat. (id' chat, created_at chat, updated_at chat,
                  history_preview (get_chat_messages (id' chat) d)))
       (get_user_chats uid d)"

definition new_chat :: "env \<Rightarrow> int \<Rightarrow> db \<Rightarrow> response \<times> db" where
  "new_chat e current_user_id d =
     (case create_chat current_user_id (uuid4 e) (now_create_chat e) d of
        Inl err \<Rightarrow> (Failure 500 ''Internal server error'', d)
      | Inr (cid, d1) \<Rightarrow> (Created cid, d1))"


section \<open>Notions used to state the properties\<close>

text \<open>
  The trimmed prompt and url of a request body (lines 87 and 92 of \<open>send_message\<close>), and
  the conversation history built from the stored messages (lines 105 to 109).
\<close>

abbreviation prompt_of :: "(string \<times> string) list \<Rightarrow> string" where
  "prompt_of data \<equiv> strip (dict_get data ''prompt'' '''')"

abbreviation url_of :: "(string \<times> string) list \<Rightarrow> string" where
  "url_of data \<equiv> strip (dict_get data ''url'' '''')"

abbreviation history_of :: "string \<Rightarrow> db \<Rightarrow> (string \<times> string) list" where
  "history_of cid d \<equiv> map (\<lambda>msg. (role msg, content msg)) (get_chat_messages cid d)"


text \<open>The row that \<open>create_chat\<close> inserts, and the row that \<open>save_chat_metadata\<close> writes.\<close>

definition new_chat_row :: "env \<Rightarrow> int \<Rightarrow> chat_row" where
  "new_chat_row e uid =
     \<lparr>id' = uuid4 e, user_id = uid, created_at = now_create_chat e,
      updated_at = now_create_chat e\<rparr>"

definition cache_row :: "string \<Rightarrow> string \<Rightarrow> string \<Rightarrow> metadata_row" where
  "cache_row cid url c =
     \<lparr>md_chat_id = cid, last_url = sanitize_db_input url,
      last_scraped_content = sanitize_db_input c\<rparr>"

text \<open>
  Whether the body supplies a chat id in the sense of \<open>if chat_id:\<close>, and the chat a turn
  works on: the supplied one, or the one it creates.
\<close>

definition chat_id_supplied :: "(string \<times> string) list \<Rightarrow> bool" where
  "chat_id_supplied data =
     (case map_of data ''chat_id'' of None \<Rightarrow> False | Some cid \<Rightarrow> cid \<noteq> [])"

definition turn_chat_id :: "env \<Rightarrow> (string \<times> string) list \<Rightarrow> string" where
  "turn_chat_id e data =
     (case map_of data ''chat_id'' of
        None \<Rightarrow> uuid4 e
      | Some cid \<Rightarrow> if cid \<noteq> [] then cid else uuid4 e)"

text \<open>
  The requests that write to the store, \<open>POST /message\<close> and \<open>POST /new\<close>, each with the
  environment it runs in and the authenticated user; the database after a list of
  requests, and their responses.
\<close>

datatype request = SendMessage env int "(string \<times> string) list" | NewChat env int

fun handle_request :: "request \<Rightarrow> db \<Rightarrow> response \<times> db \<times> call list" where
  "handle_request (SendMessage e uid data) d = send_message e uid data d"
| "handle_request (NewChat e uid) d = (case new_chat e uid d of (resp, d') \<Rightarrow> (resp, d', []))"

fun run :: "request list \<Rightarrow> db \<Rightarrow> db" where
  "run [] d = d"
| "run (r # rs) d = run rs (fst (snd (handle_request r d)))"







text \<open>
  The successful scraper calls of a request, as (chat, url, content returned), and the
  log of them along a list of requests.
\<close>

fun fetched :: "request \<Rightarrow> db \<Rightarrow> (string \<times> string \<times> string) list" where
  "fetched (SendMessage e uid data) d =
     (case send_message e uid data d of
        (resp, d', calls) \<Rightarrow>
          concat (map (\<lambda>c. case c of
                         ScrapeCall url \<Rightarrow>
                           (case scrape_sync e url of
                              ScrapeOk page title \<Rightarrow> [(turn_chat_id e data, url, page)]
                            | ScrapeFailed err \<Rightarrow> [])
                       | GenerateCall p w h \<Rightarrow> []) calls))"
| "fetched (NewChat e uid) d = []"

fun fetch_log :: "request list \<Rightarrow> db \<Rightarrow> (string \<times> string \<times> string) list" where
  "fetch_log [] d = []"
| "fetch_log (r # rs) d = fetched r d @ fetch_log rs (fst (snd (handle_request r d)))"

text \<open>
  An example environment: the drawn id, clock readings \<open>t\<close>, \<open>t + 1\<close>, \<open>t + 2\<close>,
  \<open>t + 3\<close> in call order, a scraper and a responder that return fixed results.
\<close>

definition sample_env :: "string \<Rightarrow> timestamp \<Rightarrow> scrape_result \<Rightarrow> ai_result \<Rightarrow> env" where
  "sample_env new_id t page answer =
     \<lparr>uuid4 = new_id, now_create_chat = t, now_user_message = t + 1,
      now_assistant_message = t + 2, now_update_chat = t + 3,
      scrape_sync = (\<lambda>url. page), generate_response = (\<lambda>prompt ctx history. answer)\<rparr>"

section \<open>The stages of a turn\<close>

text \<open>The outcomes of each block of \<open>send_message\<close>, and of the whole, as case rules.\<close>

lemma get_or_create_chat_cases:
  obtains
    (denied) cid where "fld = Some cid" "cid \<noteq> []" "\<not> verify_chat_ownership cid uid d"
      "get_or_create_chat e uid fld d = Inl (Failure 404 ''Chat not found or access denied'')"
  | (owned) cid where "fld = Some cid" "cid \<noteq> []" "verify_chat_ownership cid uid d"
      "get_or_create_chat e uid fld d = Inr (cid, d)"
  | (collision) "fld = None \<or> fld = Some []" "uuid4 e \<in> set (map id' (chats d))"
      "get_or_create_chat e uid fld d = Inl (Failure 500 ''Internal server error'')"
  | (created) "fld = None \<or> fld = Some []" "uuid4 e \<notin> set (map id' (chats d))"
      "get_or_create_chat e uid fld d = Inr (uuid4 e, d\<lparr>chats := chats d @ [new_chat_row e uid]\<rparr>)"
  by (cases fld; cases "the fld = []"; cases "verify_chat_ownership (the fld) uid d";
      cases "uuid4 e \<in> set (map id' (chats d))")
    (auto simp: get_or_create_chat_def create_chat_def new_chat_row_def)

lemma handle_web_scraping_cases:
  obtains
    (fetch_failed) err where "url \<noteq> []" "scrape_sync e url = ScrapeFailed err"
      "handle_web_scraping e url cid d = Inl (Failure 400 (''Failed to scrape website: '' @ err))"
  | (fetched) k t where "url \<noteq> []" "scrape_sync e url = ScrapeOk k t"
      "handle_web_scraping e url cid d = Inr (Some k, save_chat_metadata cid url k d)"
  | (cached) m where "url = []" "get_chat_metadata cid d = Some m" "last_scraped_content m \<noteq> []"
      "handle_web_scraping e url cid d = Inr (Some (last_scraped_content m), d)"
  | (no_context) "url = []"
      "get_chat_metadata cid d = None \<or> (\<exists>m. get_chat_metadata cid d = Some m \<and> last_scraped_content m = [])"
      "handle_web_scraping e url cid d = Inr (None, d)"
proof (cases "url = []")
  case True
  then show ?thesis
    using cached no_context
    by (cases "get_chat_metadata cid d") (auto simp: handle_web_scraping_def)
next
  case False
  then show ?thesis
    using fetch_failed fetched
    by (cases "scrape_sync e url") (auto simp: handle_web_scraping_def)
qed

lemma send_message_cases:
  obtains
    (invalid) "prompt_of data = []"
      "send_message e uid data d =
         (Failure 400 (if data = [] then ''No data provided'' else ''Prompt is required''), d, [])"
  | (rejected) resp where "prompt_of data \<noteq> []"
      "get_or_create_chat e uid (map_of data ''chat_id'') d = Inl resp"
      "send_message e uid data d = (resp, d, [])"
  | (fetch_failed) cid d1 err where "prompt_of data \<noteq> []"
      "get_or_create_chat e uid (map_of data ''chat_id'') d = Inr (cid, d1)"
      "url_of data \<noteq> []" "scrape_sync e (url_of data) = ScrapeFailed err"
      "send_message e uid data d =
         (Failure 400 (''Failed to scrape website: '' @ err), d1, [ScrapeCall (url_of data)])"
  | (generation_failed) cid d1 ctx d2 err where "prompt_of data \<noteq> []"
      "get_or_create_chat e uid (map_of data ''chat_id'') d = Inr (cid, d1)"
      "handle_web_scraping e (url_of data) cid d1 = Inr (ctx, d2)"
      "generate_response e (prompt_of data) ctx (history_of cid d1) = AiFailed err"
      "send_message e uid data d =
         (Failure 500 (''Failed to generate response: '' @ err), d2,
          (if url_of data \<noteq> [] then [ScrapeCall (url_of data)] else []) @
          [GenerateCall (prompt_of data) ctx (history_of cid d1)])"
  | (stored) cid d1 ctx d2 answer where "prompt_of data \<noteq> []"
      "get_or_create_chat e uid (map_of data ''chat_id'') d = Inr (cid, d1)"
      "handle_web_scraping e (url_of data) cid d1 = Inr (ctx, d2)"
      "generate_response e (prompt_of data) ctx (history_of cid d1) = AiOk answer"
      "send_message e uid data d =
         (Success answer cid,
          update_chat_timestamp cid (now_update_chat e)
            (add_message cid ''assistant'' answer (now_assistant_message e)
              (add_message cid ''user'' (prompt_of data) (now_user_message e) d2)),
          (if url_of data \<noteq> [] then [ScrapeCall (url_of data)] else []) @
          [GenerateCall (prompt_of data) ctx (history_of cid d1)])"
proof (cases "prompt_of data = []")
  case True
  then show ?thesis using invalid by (simp add: send_message_def)
next
  case np: False
  then have nd: "data \<noteq> []" by (auto simp: dict_get_def strip_def)
  show ?thesis
  proof (cases "get_or_create_chat e uid (map_of data ''chat_id'') d")
    case (Inl resp)
    then show ?thesis using rejected np nd by (simp add: send_message_def)
  next
    case (Inr p)
    then obtain cid d1 where r: "get_or_create_chat e uid (map_of data ''chat_id'') d = Inr (cid, d1)"
      by (cases p) auto
    show ?thesis
    proof (cases "handle_web_scraping e (url_of data) cid d1")
      case (Inl resp)
      then obtain err where "url_of data \<noteq> []" "scrape_sync e (url_of data) = ScrapeFailed err"
        "resp = Failure 400 (''Failed to scrape website: '' @ err)"
        by (cases rule: handle_web_scraping_cases[of "url_of data" e cid d1]) auto
      then show ?thesis using fetch_failed np nd r Inl by (simp add: send_message_def Let_def)
    next
      case (Inr q)
      then obtain ctx d2 where h: "handle_web_scraping e (url_of data) cid d1 = Inr (ctx, d2)"
        by (cases q) auto
      show ?thesis
      proof (cases "generate_response e (prompt_of data) ctx (history_of cid d1)")
        case (AiOk answer)
        then show ?thesis using stored[OF np r h AiOk] np nd r h
          by (simp add: send_message_def Let_def generate_and_store_def)
      next
        case (AiFailed err)
        then show ?thesis using generation_failed[OF np r h AiFailed] np nd r h
          by (simp add: send_message_def Let_def generate_and_store_def)
      qed
    qed
  qed
qed

text \<open>The equations that evaluate a turn on concrete input.\<close>

lemmas eval_defs = send_message_def dict_get_def strip_def is_space_def get_or_create_chat_def
  create_chat_def handle_web_scraping_def generate_and_store_def verify_chat_ownership_def
  get_chat_messages_def get_chat_metadata_def save_chat_metadata_def add_message_def
  update_chat_timestamp_def sanitize_db_input_def sample_env_def init_db_def Let_def
  new_chat_row_def cache_row_def chat_id_supplied_def turn_chat_id_def

section \<open>What each store operation writes\<close>

lemma add_message_tables:
  "chats (add_message cid r c now d) = chats d"
  "chat_metadata (add_message cid r c now d) = chat_metadata d"
  "messages (add_message cid r c now d) =
     messages d @ [\<lparr>msg_id = Suc (messages_seq d), chat_id = cid, role = r,
                    content = sanitize_db_input c, timestamp = now\<rparr>]"
  by (simp_all add: add_message_def)

lemma update_chat_timestamp_tables:
  "messages (update_chat_timestamp cid now d) = messages d"
  "chat_metadata (update_chat_timestamp cid now d) = chat_metadata d"
  "chats (update_chat_timestamp cid now d) =
     map (\<lambda>r. if id' r = cid then r\<lparr>updated_at := now\<rparr> else r) (chats d)"
  by (simp_all add: update_chat_timestamp_def)

lemma save_chat_metadata_tables:
  "messages (save_chat_metadata cid url c d) = messages d"
  "chats (save_chat_metadata cid url c d) = chats d"
  "chat_metadata (save_chat_metadata cid url c d) =
     filter (\<lambda>r. md_chat_id r \<noteq> cid) (chat_metadata d) @ [cache_row cid url c]"
  by (simp_all add: save_chat_metadata_def cache_row_def)

lemma find_replaced:
  "P x \<Longrightarrow> find P (filter (\<lambda>r. \<not> P r) xs @ [x]) = Some x"
  by (induction xs) auto

lemma filter_replaced:
  "P x \<Longrightarrow> filter P (filter (\<lambda>r. \<not> P r) xs @ [x]) = [x]"
  by (induction xs) auto

lemma get_after_save:
  "get_chat_metadata cid (save_chat_metadata cid url c d) = Some (cache_row cid url c)"
  using find_replaced[of "\<lambda>r. md_chat_id r = cid" "cache_row cid url c" "chat_metadata d"]
  by (simp add: get_chat_metadata_def save_chat_metadata_tables cache_row_def)

lemma get_or_create_chat_Inr:
  assumes "get_or_create_chat e uid (map_of data ''chat_id'') d = Inr (cid, d1)"
  shows "cid = turn_chat_id e data"
    and "d1 = (if chat_id_supplied data then d else d\<lparr>chats := chats d @ [new_chat_row e uid]\<rparr>)"
  using assms
  by (cases rule: get_or_create_chat_cases[of "map_of data ''chat_id''" uid d e];
      auto simp: turn_chat_id_def chat_id_supplied_def)+

lemma get_or_create_chat_reads:
  assumes "get_or_create_chat e uid fld d = Inr (cid, d1)"
  shows "messages d1 = messages d" and "chat_metadata d1 = chat_metadata d"
  using assms
  by (cases rule: get_or_create_chat_cases[of fld uid d e]; auto)+

lemma handle_web_scraping_Inr:
  assumes "handle_web_scraping e url cid d1 = Inr (ctx, d2)"
  shows "messages d2 = messages d1" and "chats d2 = chats d1"
    and "url \<noteq> [] \<Longrightarrow> \<exists>k t. scrape_sync e url = ScrapeOk k t \<and> ctx = Some k \<and>
           d2 = save_chat_metadata cid url k d1"
    and "url = [] \<Longrightarrow> d2 = d1"
  using assms
  by (cases rule: handle_web_scraping_cases[of url e cid d1];
      auto simp: save_chat_metadata_tables)+

lemma get_chat_messages_cong:
  "messages d1 = messages d \<Longrightarrow> get_chat_messages cid d1 = get_chat_messages cid d"
  by (simp add: get_chat_messages_def)

lemma get_chat_metadata_cong:
  "chat_metadata d1 = chat_metadata d \<Longrightarrow> get_chat_metadata cid d1 = get_chat_metadata cid d"
  by (simp add: get_chat_metadata_def)

section \<open>Runs of requests\<close>












lemma get_or_create_chat_seq:
  assumes "get_or_create_chat e uid fld d = Inr (cid, d1)"
  shows "messages_seq d1 = messages_seq d"
  using assms
  by (cases rule: get_or_create_chat_cases[of fld uid d e]; auto)

lemma handle_web_scraping_seq:
  assumes "handle_web_scraping e url cid d1 = Inr (ctx, d2)"
  shows "messages_seq d2 = messages_seq d1"
  using assms
  by (cases rule: handle_web_scraping_cases[of url e cid d1];
      auto simp: save_chat_metadata_def)

lemma stored_turn_rows:
  assumes "send_message e uid data d = (Success answer cid, d', calls)"
  shows "messages d' = messages d @
           [\<lparr>msg_id = Suc (messages_seq d), chat_id = cid, role = ''user'',
             content = sanitize_db_input (prompt_of data), timestamp = now_user_message e\<rparr>,
            \<lparr>msg_id = Suc (Suc (messages_seq d)), chat_id = cid, role = ''assistant'',
             content = sanitize_db_input answer, timestamp = now_assistant_message e\<rparr>]"
proof (cases rule: send_message_cases[of data e uid d])
  case invalid
  with assms show ?thesis by simp
next
  case (rejected resp)
  then have "\<exists>n s. resp = Failure n s"
    by (cases rule: get_or_create_chat_cases[of "map_of data ''chat_id''" uid d e]) auto
  with assms rejected show ?thesis by auto
next
  case (fetch_failed cid d1 err)
  with assms show ?thesis by simp
next
  case (generation_failed cid d1 ctx d2 err)
  with assms show ?thesis by simp
next
  case (stored cid' d1 ctx d2 answer')
  have "messages d2 = messages d" "messages_seq d2 = messages_seq d"
    using get_or_create_chat_reads(1)[OF stored(2)] handle_web_scraping_Inr(1)[OF stored(3)]
      get_or_create_chat_seq[OF stored(2)] handle_web_scraping_seq[OF stored(3)]
    by simp_all
  with stored(5) assms show ?thesis
    by (simp add: update_chat_timestamp_def add_message_def)
qed

lemma step_cache:
  "(fetched r d = [] \<and>
      chat_metadata (fst (snd (handle_request r d))) = chat_metadata d) \<or>
   (\<exists>c u k. fetched r d = [(c, u, k)] \<and>
      chat_metadata (fst (snd (handle_request r d))) =
        filter (\<lambda>row. md_chat_id row \<noteq> c) (chat_metadata d) @ [cache_row c u k])"
proof (cases r)
  case (NewChat e uid)
  then show ?thesis
    by (auto simp: new_chat_def create_chat_def split: sum.splits prod.splits)
next
  case (SendMessage e uid data)
  show ?thesis
  proof (cases rule: send_message_cases[of data e uid d])
    case invalid
    then show ?thesis using SendMessage by simp
  next
    case (rejected resp)
    then show ?thesis using SendMessage by simp
  next
    case (fetch_failed cid d1 err)
    then show ?thesis
      using SendMessage get_or_create_chat_reads(2)[OF fetch_failed(2)] by simp
  next
    case (generation_failed cid d1 ctx d2 err)
    note c = get_or_create_chat_Inr(1)[OF generation_failed(2)]
      get_or_create_chat_reads(2)[OF generation_failed(2)]
    note w = handle_web_scraping_Inr(3,4)[OF generation_failed(3)]
    show ?thesis
    proof (cases "url_of data = []")
      case True
      then show ?thesis using SendMessage generation_failed(5) w(2) c by simp
    next
      case False
      then obtain k t where "scrape_sync e (url_of data) = ScrapeOk k t"
        "d2 = save_chat_metadata cid (url_of data) k d1" using w(1) by auto
      then show ?thesis
        using False SendMessage generation_failed(5) c
        by (simp add: save_chat_metadata_tables)
    qed
  next
    case (stored cid d1 ctx d2 answer)
    note c = get_or_create_chat_Inr(1)[OF stored(2)] get_or_create_chat_reads(2)[OF stored(2)]
    note w = handle_web_scraping_Inr(3,4)[OF stored(3)]
    show ?thesis
    proof (cases "url_of data = []")
      case True
      then show ?thesis
        using SendMessage stored(5) w(2) c
        by (simp add: update_chat_timestamp_tables add_message_tables)
    next
      case False
      then obtain k t where "scrape_sync e (url_of data) = ScrapeOk k t"
        "d2 = save_chat_metadata cid (url_of data) k d1" using w(1) by auto
      then show ?thesis
        using False SendMessage stored(5) c
        by (simp add: save_chat_metadata_tables update_chat_timestamp_tables add_message_tables)
    qed
  qed
qed

lemma step_cache_fetched:
  assumes "fetched r d = [(c, u, k)]"
  shows "get_chat_metadata c (fst (snd (handle_request r d))) = Some (cache_row c u k)"
    and "filter (\<lambda>row. md_chat_id row = c) (chat_metadata (fst (snd (handle_request r d)))) =
           [cache_row c u k]"
proof -
  from step_cache[of r d] assms
  have md: "chat_metadata (fst (snd (handle_request r d))) =
        filter (\<lambda>row. md_chat_id row \<noteq> c) (chat_metadata d) @ [cache_row c u k]"
    by auto
  show "get_chat_metadata c (fst (snd (handle_request r d))) = Some (cache_row c u k)"
    unfolding get_chat_metadata_def md
    using find_replaced[of "\<lambda>row. md_chat_id row = c" "cache_row c u k" "chat_metadata d"]
    by (simp add: cache_row_def)
  show "filter (\<lambda>row. md_chat_id row = c) (chat_metadata (fst (snd (handle_request r d)))) =
           [cache_row c u k]"
    unfolding md
    using filter_replaced[of "\<lambda>row. md_chat_id row = c" "cache_row c u k" "chat_metadata d"]
    by (simp add: cache_row_def)
qed

lemma cache_invariant_run:
  assumes "\<forall>row\<in>set (chat_metadata d). \<exists>(c, u, k)\<in>set log. row = cache_row c u k"
  shows "\<forall>row\<in>set (chat_metadata (run reqs d)).
           \<exists>(c, u, k)\<in>set (log @ fetch_log reqs d). row = cache_row c u k"
  using assms
proof (induction reqs arbitrary: d log)
  case Nil
  then show ?case by simp
next
  case (Cons r rs)
  let ?d' = "fst (snd (handle_request r d))"
  have "\<forall>row\<in>set (chat_metadata ?d'). \<exists>(c, u, k)\<in>set (log @ fetched r d). row = cache_row c u k"
    using step_cache[of r d] Cons.prems by fastforce
  from Cons.IH[OF this] show ?case by simp
qed

lemma cache_keys_run:
  assumes "distinct (map md_chat_id (chat_metadata d))"
  shows "distinct (map md_chat_id (chat_metadata (run reqs d)))"
  using assms
proof (induction reqs arbitrary: d)
  case Nil
  then show ?case by simp
next
  case (Cons r rs)
  have "distinct (map md_chat_id (chat_metadata (fst (snd (handle_request r d)))))"
    using step_cache[of r d] Cons.prems
    by (auto simp: cache_row_def distinct_map_filter)
  from Cons.IH[OF this] show ?case by simp
qed

lemma history_preview_cases:
  "history_preview [] = ''New Chat''"
  "length (content m) \<le> 50 \<Longrightarrow> history_preview (m # ms) = content m"
  "length (content m) > 50 \<Longrightarrow> history_preview (m # ms) = take 50 (content m) @ ''...''"
  by (simp_all add: history_preview_def)

lemma get_preview_cases:
  "chat_messages c = None \<or> chat_messages c = Some [] \<Longrightarrow> get_preview c = ''New Chat''"
  "chat_messages c = Some (m # ms) \<Longrightarrow> get_preview c = take 50 (content m) @ ''...''"
  by (auto simp: get_preview_def)

section \<open>The properties\<close>

text \<open>
  C1 (as amended). A turn whose scraper call fails answers 400 with the scraper's error;
  the scraper call is the only call made, so the responder is not invoked; the tables
  \<open>messages\<close> and \<open>chat_metadata\<close> are as before the turn. When a \<open>chat_id\<close> was
  supplied the whole database is unchanged; when none was supplied, the chat row that
  \<open>create_chat\<close> inserted before the scrape remains.
\<close>

theorem fetch_failure_aborts:
  assumes "send_message e uid data d = (resp, d', calls)"
    and "ScrapeCall url \<in> set calls" and "scrape_sync e url = ScrapeFailed err"
  shows "resp = Failure 400 (''Failed to scrape website: '' @ err) \<and>
         calls = [ScrapeCall url] \<and>
         messages d' = messages d \<and> chat_metadata d' = chat_metadata d \<and>
         d' = (if chat_id_supplied data then d
               else d\<lparr>chats := chats d @ [new_chat_row e uid]\<rparr>)"
proof (cases rule: send_message_cases[of data e uid d])
  case invalid
  with assms show ?thesis by simp
next
  case (rejected r)
  with assms show ?thesis by simp
next
  case (fetch_failed cid d1 err')
  with assms have "url = url_of data" "err' = err" by auto
  with fetch_failed assms(1) get_or_create_chat_Inr(2)[OF fetch_failed(2)]
  show ?thesis by auto
next
  case (generation_failed cid d1 ctx d2 err')
  with assms have "url = url_of data" "url_of data \<noteq> []" by (auto split: if_splits)
  with handle_web_scraping_Inr(3)[OF generation_failed(3)] assms(3)
  show ?thesis by auto
next
  case (stored cid d1 ctx d2 answer)
  with assms have "url = url_of data" "url_of data \<noteq> []" by (auto split: if_splits)
  with handle_web_scraping_Inr(3)[OF stored(3)] assms(3)
  show ?thesis by auto
qed

theorem fetch_failure_aborts_witness:
  "scrape_sync (sample_env ''c1'' 1 (ScrapeFailed ''boom'') (AiOk ''ok'')) ''http://a.b'' =
     ScrapeFailed ''boom'' \<and>
   send_message (sample_env ''c1'' 1 (ScrapeFailed ''boom'') (AiOk ''ok'')) 7
     [(''chat_id'', ''c0''), (''prompt'', ''hi''), (''url'', ''http://a.b'')]
     (init_db\<lparr>chats := [\<lparr>id' = ''c0'', user_id = 7, created_at = 0, updated_at = 0\<rparr>]\<rparr>) =
   (Failure 400 ''Failed to scrape website: boom'',
    init_db\<lparr>chats := [\<lparr>id' = ''c0'', user_id = 7, created_at = 0, updated_at = 0\<rparr>]\<rparr>,
    [ScrapeCall ''http://a.b''])"
proof -
  let ?e = "sample_env ''c1'' 1 (ScrapeFailed ''boom'') (AiOk ''ok'')"
  let ?data = "[(''chat_id'', ''c0''), (''prompt'', ''hi''), (''url'', ''http://a.b'')]"
  let ?d = "init_db\<lparr>chats := [\<lparr>id' = ''c0'', user_id = 7, created_at = 0, updated_at = 0\<rparr>]\<rparr>"
  obtain resp d' calls where run: "send_message ?e 7 ?data ?d = (resp, d', calls)"
    by (cases "send_message ?e 7 ?data ?d") auto
  then have called: "ScrapeCall ''http://a.b'' \<in> set calls"
    by (auto simp: eval_defs)
  have failed: "scrape_sync ?e ''http://a.b'' = ScrapeFailed ''boom''"
    by (simp add: sample_env_def)
  have "chat_id_supplied ?data" by (simp add: chat_id_supplied_def)
  then show ?thesis
    using fetch_failure_aborts[OF run called failed] run failed by simp
qed

text \<open>
  C1 as stated fails for a turn without \<open>chat_id\<close>: the scrape fails, and the database
  after the turn holds a chat row that it did not hold before.
\<close>

theorem fetch_failure_creates_chat_counterexample:
  "scrape_sync (sample_env ''c1'' 1 (ScrapeFailed ''boom'') (AiOk ''ok'')) ''http://a.b'' =
     ScrapeFailed ''boom'' \<and>
   send_message (sample_env ''c1'' 1 (ScrapeFailed ''boom'') (AiOk ''ok'')) 7
     [(''prompt'', ''hi''), (''url'', ''http://a.b'')] init_db =
   (Failure 400 ''Failed to scrape website: boom'',
    init_db\<lparr>chats := [\<lparr>id' = ''c1'', user_id = 7, created_at = 1, updated_at = 1\<rparr>]\<rparr>,
    [ScrapeCall ''http://a.b'']) \<and>
   init_db\<lparr>chats := [\<lparr>id' = ''c1'', user_id = 7, created_at = 1, updated_at = 1\<rparr>]\<rparr> \<noteq> init_db"
  by (simp add: eval_defs)

text \<open>
  C2. For a turn that supplies a \<open>chat_id\<close> (a non-empty string, which is what
  \<open>if chat_id:\<close> tests; no chat has the empty id, ids being \<open>uuid4\<close> texts): the run on a database without that chat and the run on a
  database where the chat belongs to another user give the same response, 404
  \<open>Chat not found or access denied\<close> for a valid prompt (and the same 400 otherwise);
  both leave the database unchanged and call no collaborator.
\<close>

theorem foreign_chat_indistinguishable:
  assumes "map_of data ''chat_id'' = Some cid" and "cid \<noteq> []"
    and "find (\<lambda>r. id' r = cid) (chats d1) = None"
    and "find (\<lambda>r. id' r = cid) (chats d2) = Some row" and "user_id row \<noteq> uid"
  shows "send_message e1 uid data d1 =
           (if prompt_of data = [] then Failure 400 ''Prompt is required''
            else Failure 404 ''Chat not found or access denied'', d1, []) \<and>
         send_message e2 uid data d2 =
           (if prompt_of data = [] then Failure 400 ''Prompt is required''
            else Failure 404 ''Chat not found or access denied'', d2, [])"
proof -
  from assms(1) have nd: "data \<noteq> []" by auto
  have "get_or_create_chat e1 uid (map_of data ''chat_id'') d1 =
          Inl (Failure 404 ''Chat not found or access denied'')"
    using assms by (simp add: get_or_create_chat_def verify_chat_ownership_def)
  moreover have "get_or_create_chat e2 uid (map_of data ''chat_id'') d2 =
          Inl (Failure 404 ''Chat not found or access denied'')"
    using assms by (simp add: get_or_create_chat_def verify_chat_ownership_def)
  ultimately show ?thesis using nd by (simp add: send_message_def Let_def)
qed

theorem foreign_chat_indistinguishable_witness:
  "send_message (sample_env ''c2'' 5 (ScrapeOk ''page'' ''t'') (AiOk ''ok'')) 7
     [(''chat_id'', ''c1''), (''prompt'', ''hi'')] init_db =
     (Failure 404 ''Chat not found or access denied'', init_db, []) \<and>
   send_message (sample_env ''c2'' 5 (ScrapeOk ''page'' ''t'') (AiOk ''ok'')) 7
     [(''chat_id'', ''c1''), (''prompt'', ''hi'')]
     (init_db\<lparr>chats := [\<lparr>id' = ''c1'', user_id = 8, created_at = 1, updated_at = 1\<rparr>]\<rparr>) =
     (Failure 404 ''Chat not found or access denied'',
      init_db\<lparr>chats := [\<lparr>id' = ''c1'', user_id = 8, created_at = 1, updated_at = 1\<rparr>]\<rparr>, [])"
  using foreign_chat_indistinguishable[of "[(''chat_id'', ''c1''), (''prompt'', ''hi'')]" "''c1''"
      init_db "init_db\<lparr>chats := [\<lparr>id' = ''c1'', user_id = 8, created_at = 1, updated_at = 1\<rparr>]\<rparr>"
      "\<lparr>id' = ''c1'', user_id = 8, created_at = 1, updated_at = 1\<rparr>" 7
      "sample_env ''c2'' 5 (ScrapeOk ''page'' ''t'') (AiOk ''ok'')"
      "sample_env ''c2'' 5 (ScrapeOk ''page'' ''t'') (AiOk ''ok'')"]
  by (simp add: init_db_def strip_def dict_get_def is_space_def)

text \<open>
  C3. A turn whose responder call fails answers 500 with the responder's error. No message
  is stored, and the rows of \<open>chats\<close> are as before the turn (with the new row of
  \<open>create_chat\<close> when no \<open>chat_id\<close> was supplied), so no \<open>updated_at\<close> has
  moved. When the turn had a url, the cache row written for it is still what the lookup
  returns afterwards; without a url the cache table is unchanged.
\<close>

theorem generation_failure_keeps_cache:
  assumes "send_message e uid data d = (resp, d', calls)"
    and "GenerateCall p ctx h \<in> set calls" and "generate_response e p ctx h = AiFailed err"
  shows "resp = Failure 500 (''Failed to generate response: '' @ err) \<and>
         messages d' = messages d \<and>
         chats d' = (if chat_id_supplied data then chats d
                     else chats d @ [new_chat_row e uid]) \<and>
         (if url_of data = [] then chat_metadata d' = chat_metadata d
          else \<exists>k t. scrape_sync e (url_of data) = ScrapeOk k t \<and>
                 calls = [ScrapeCall (url_of data), GenerateCall p ctx h] \<and>
                 get_chat_metadata (turn_chat_id e data) d' =
                   Some (cache_row (turn_chat_id e data) (url_of data) k))"
proof (cases rule: send_message_cases[of data e uid d])
  case invalid
  with assms show ?thesis by simp
next
  case (rejected r)
  with assms show ?thesis by simp
next
  case (fetch_failed cid d1 err')
  with assms show ?thesis by auto
next
  case (generation_failed cid d1 ctx' d2 err')
  with assms have eq: "p = prompt_of data" "ctx' = ctx" "h = history_of cid d1" "err' = err"
    by (auto split: if_splits)
  note c = get_or_create_chat_Inr[OF generation_failed(2)]
  note w = handle_web_scraping_Inr[OF generation_failed(3)]
  have d': "d' = d2" and r: "resp = Failure 500 (''Failed to generate response: '' @ err)"
    using generation_failed(5) assms(1) eq by auto
  have m: "messages d' = messages d" using d' w(1) c(2) by (auto split: if_splits)
  have ch: "chats d' = (if chat_id_supplied data then chats d
                     else chats d @ [new_chat_row e uid])"
    using d' w(2) c(2) by (auto split: if_splits)
  have md: "(if url_of data = [] then chat_metadata d' = chat_metadata d
          else \<exists>k t. scrape_sync e (url_of data) = ScrapeOk k t \<and>
                 calls = [ScrapeCall (url_of data), GenerateCall p ctx h] \<and>
                 get_chat_metadata (turn_chat_id e data) d' =
                   Some (cache_row (turn_chat_id e data) (url_of data) k))"
  proof (cases "url_of data = []")
    case True
    then show ?thesis using w(4) d' c(2) by (auto split: if_splits)
  next
    case False
    then obtain k t where "scrape_sync e (url_of data) = ScrapeOk k t"
      "d2 = save_chat_metadata cid (url_of data) k d1" using w(3) by auto
    then show ?thesis
      using False d' c(1) generation_failed(5) assms(1) eq by (auto simp: get_after_save)
  qed
  show ?thesis using r m ch md by blast
next
  case (stored cid d1 ctx' d2 answer)
  with assms show ?thesis by (auto split: if_splits)
qed

theorem generation_failure_keeps_cache_witness:
  "get_chat_metadata ''c1''
     (fst (snd (send_message (sample_env ''c1'' 1 (ScrapeOk ''page'' ''t'') (AiFailed ''quota'')) 7
        [(''prompt'', ''hi''), (''url'', ''http://a.b'')] init_db))) =
   Some \<lparr>md_chat_id = ''c1'', last_url = ''http://a.b'', last_scraped_content = ''page''\<rparr>"
proof -
  let ?e = "sample_env ''c1'' 1 (ScrapeOk ''page'' ''t'') (AiFailed ''quota'')"
  let ?data = "[(''prompt'', ''hi''), (''url'', ''http://a.b'')]"
  let ?d' = "init_db\<lparr>chats := [\<lparr>id' = ''c1'', user_id = 7, created_at = 1, updated_at = 1\<rparr>],
     chat_metadata := [\<lparr>md_chat_id = ''c1'', last_url = ''http://a.b'',
                        last_scraped_content = ''page''\<rparr>]\<rparr>"
  have run: "send_message ?e 7 ?data init_db =
      (Failure 500 ''Failed to generate response: quota'', ?d',
       [ScrapeCall ''http://a.b'', GenerateCall ''hi'' (Some ''page'') []])"
    by (simp add: eval_defs)
  have called: "GenerateCall ''hi'' (Some ''page'') [] \<in>
      set [ScrapeCall ''http://a.b'', GenerateCall ''hi'' (Some ''page'') []]" by simp
  have failed: "generate_response ?e ''hi'' (Some ''page'') [] = AiFailed ''quota''"
    by (simp add: sample_env_def)
  show ?thesis
    using generation_failure_keeps_cache[OF run called failed]
    by (simp add: eval_defs)
qed




text \<open>
  C5 (as amended). After a turn on chat \<open>c\<close> that scraped \<open>urlA\<close> with success, the
  lookup returns the row of \<open>urlA\<close>; after a following turn on \<open>c\<close> that scraped
  \<open>urlB\<close> with success, the table has exactly one row for \<open>c\<close>, the lookup returns it,
  and it holds \<open>sanitize_db_input\<close> of \<open>urlB\<close> and of its page, nothing of \<open>urlA\<close>.
\<close>

theorem cache_last_write_wins:
  assumes "fetched (SendMessage e1 u1 data1) d = [(c, urlA, pageA)]"
    and "fetched (SendMessage e2 u2 data2) (fst (snd (send_message e1 u1 data1 d))) =
           [(c, urlB, pageB)]"
  shows "get_chat_metadata c (fst (snd (send_message e1 u1 data1 d))) =
           Some (cache_row c urlA pageA) \<and>
         get_chat_metadata c (run [SendMessage e1 u1 data1, SendMessage e2 u2 data2] d) =
           Some (cache_row c urlB pageB) \<and>
         filter (\<lambda>row. md_chat_id row = c)
           (chat_metadata (run [SendMessage e1 u1 data1, SendMessage e2 u2 data2] d)) =
           [cache_row c urlB pageB]"
  using step_cache_fetched[OF assms(1)] step_cache_fetched[OF assms(2)] by simp

theorem cache_last_write_wins_witness:
  "get_chat_metadata ''c1''
     (run [SendMessage (sample_env ''c1'' 1 (ScrapeOk ''page A'' ''t'') (AiOk ''ok'')) 7
             [(''prompt'', ''hi''), (''url'', ''http://a.b'')],
           SendMessage (sample_env ''c2'' 5 (ScrapeOk ''page B'' ''t'') (AiOk ''fine'')) 7
             [(''chat_id'', ''c1''), (''prompt'', ''more''), (''url'', ''http://b.c'')]] init_db) =
   Some \<lparr>md_chat_id = ''c1'', last_url = ''http://b.c'', last_scraped_content = ''page B''\<rparr>"
proof -
  let ?e1 = "sample_env ''c1'' 1 (ScrapeOk ''page A'' ''t'') (AiOk ''ok'')"
  let ?e2 = "sample_env ''c2'' 5 (ScrapeOk ''page B'' ''t'') (AiOk ''fine'')"
  let ?data1 = "[(''prompt'', ''hi''), (''url'', ''http://a.b'')]"
  let ?data2 = "[(''chat_id'', ''c1''), (''prompt'', ''more''), (''url'', ''http://b.c'')]"
  have a: "fetched (SendMessage ?e1 7 ?data1) init_db = [(''c1'', ''http://a.b'', ''page A'')]"
    by (simp add: eval_defs)
  have b: "fetched (SendMessage ?e2 7 ?data2) (fst (snd (send_message ?e1 7 ?data1 init_db))) =
             [(''c1'', ''http://b.c'', ''page B'')]"
    by (simp add: eval_defs)
  have "cache_row ''c1'' ''http://b.c'' ''page B'' =
     \<lparr>md_chat_id = ''c1'', last_url = ''http://b.c'', last_scraped_content = ''page B''\<rparr>"
    by (simp add: eval_defs)
  then show ?thesis
    using cache_last_write_wins[OF a b] by simp
qed

text \<open>
  C5 as stated fails where the page of \<open>urlB\<close> has outer whitespace: the record holds
  \<open>''page B''\<close>, the scraper returned \<open>'' page B ''\<close>.
\<close>

theorem cache_record_is_sanitized_counterexample:
  "fetched (SendMessage (sample_env ''c2'' 5 (ScrapeOk '' page B '' ''t'') (AiOk ''fine'')) 7
             [(''chat_id'', ''c1''), (''prompt'', ''more''), (''url'', ''http://b.c'')])
     (fst (snd (send_message (sample_env ''c1'' 1 (ScrapeOk ''page A'' ''t'') (AiOk ''ok'')) 7
             [(''prompt'', ''hi''), (''url'', ''http://a.b'')] init_db))) =
     [(''c1'', ''http://b.c'', '' page B '')] \<and>
   get_chat_metadata ''c1''
     (run [SendMessage (sample_env ''c1'' 1 (ScrapeOk ''page A'' ''t'') (AiOk ''ok'')) 7
             [(''prompt'', ''hi''), (''url'', ''http://a.b'')],
           SendMessage (sample_env ''c2'' 5 (ScrapeOk '' page B '' ''t'') (AiOk ''fine'')) 7
             [(''chat_id'', ''c1''), (''prompt'', ''more''), (''url'', ''http://b.c'')]] init_db) =
     Some \<lparr>md_chat_id = ''c1'', last_url = ''http://b.c'', last_scraped_content = ''page B''\<rparr> \<and>
   ''page B'' \<noteq> '' page B ''"
  by (simp add: eval_defs)

text \<open>
  C6 (as amended). A turn with a valid prompt, no url (or an empty one after trimming) and
  a chat that resolves to \<open>cid\<close> makes exactly one call, to the responder, with the
  trimmed prompt and the stored history. Without a cache row for \<open>cid\<close> the page context
  is \<open>None\<close>; with a row, it is the row's \<open>last_scraped_content\<close> when that is not
  empty, and \<open>None\<close> when it is empty.
\<close>

theorem no_url_uses_cache:
  assumes "prompt_of data \<noteq> []" and "url_of data = []"
    and "get_or_create_chat e uid (map_of data ''chat_id'') d = Inr (cid, d1)"
  shows "(get_chat_metadata cid d = None \<longrightarrow>
            snd (snd (send_message e uid data d)) =
              [GenerateCall (prompt_of data) None (history_of cid d)]) \<and>
         (\<forall>m. get_chat_metadata cid d = Some m \<longrightarrow>
            snd (snd (send_message e uid data d)) =
              [GenerateCall (prompt_of data)
                 (if last_scraped_content m \<noteq> [] then Some (last_scraped_content m) else None)
                 (history_of cid d)])"
proof -
  note r = get_or_create_chat_reads[OF assms(3)]
  have h: "history_of cid d1 = history_of cid d"
    using get_chat_messages_cong[OF r(1)] by simp
  have md: "get_chat_metadata cid d1 = get_chat_metadata cid d"
    using get_chat_metadata_cong[OF r(2)] .
  show ?thesis
  proof (cases rule: send_message_cases[of data e uid d])
    case invalid
    with assms show ?thesis by simp
  next
    case (rejected resp)
    with assms show ?thesis by simp
  next
    case (fetch_failed cid' d1' err)
    with assms show ?thesis by simp
  next
    case (generation_failed cid' d1' ctx d2 err)
    with assms have eq: "cid' = cid" "d1' = d1" by auto
    from generation_failed(3) assms(2) md eq
    have "ctx = (case get_chat_metadata cid d of None \<Rightarrow> None
                 | Some m \<Rightarrow> if last_scraped_content m \<noteq> []
                             then Some (last_scraped_content m) else None)"
      by (auto simp: handle_web_scraping_def split: option.splits if_splits)
    with generation_failed(5) assms(2) eq h show ?thesis by auto
  next
    case (stored cid' d1' ctx d2 answer)
    with assms have eq: "cid' = cid" "d1' = d1" by auto
    from stored(3) assms(2) md eq
    have "ctx = (case get_chat_metadata cid d of None \<Rightarrow> None
                 | Some m \<Rightarrow> if last_scraped_content m \<noteq> []
                             then Some (last_scraped_content m) else None)"
      by (auto simp: handle_web_scraping_def split: option.splits if_splits)
    with stored(5) assms(2) eq h show ?thesis by auto
  qed
qed

theorem no_url_uses_cache_witness:
  "snd (snd (send_message (sample_env ''c2'' 5 (ScrapeOk ''page'' ''t'') (AiOk ''ok'')) 7
      [(''chat_id'', ''c1''), (''prompt'', ''more'')]
      (init_db\<lparr>chats := [\<lparr>id' = ''c1'', user_id = 7, created_at = 1, updated_at = 1\<rparr>],
         chat_metadata := [\<lparr>md_chat_id = ''c1'', last_url = ''http://a.b'',
                             last_scraped_content = ''page''\<rparr>]\<rparr>))) =
   [GenerateCall ''more'' (Some ''page'') []]"
proof -
  let ?e = "sample_env ''c2'' 5 (ScrapeOk ''page'' ''t'') (AiOk ''ok'')"
  let ?data = "[(''chat_id'', ''c1''), (''prompt'', ''more'')]"
  let ?d = "init_db\<lparr>chats := [\<lparr>id' = ''c1'', user_id = 7, created_at = 1, updated_at = 1\<rparr>],
         chat_metadata := [\<lparr>md_chat_id = ''c1'', last_url = ''http://a.b'',
                             last_scraped_content = ''page''\<rparr>]\<rparr>"
  have p: "prompt_of ?data \<noteq> []" by (simp add: eval_defs)
  have u: "url_of ?data = []" by (simp add: eval_defs)
  have c: "get_or_create_chat ?e 7 (map_of ?data ''chat_id'') ?d = Inr (''c1'', ?d)"
    by (simp add: eval_defs)
  have m: "get_chat_metadata ''c1'' ?d = Some \<lparr>md_chat_id = ''c1'', last_url = ''http://a.b'',
                             last_scraped_content = ''page''\<rparr>"
    by (simp add: eval_defs)
  show ?thesis
    using no_url_uses_cache[OF p u c] m by (simp add: eval_defs)
qed

text \<open>
  C6 as stated fails for a cache row with empty content (written by a scrape that returned
  an empty page): the row exists, and the responder is called with \<open>None\<close>, not with the
  stored \<open>''''\<close>.
\<close>

theorem empty_cache_entry_not_passed_counterexample:
  "get_chat_metadata ''c1''
     (fst (snd (send_message (sample_env ''c1'' 1 (ScrapeOk '''' ''t'') (AiOk ''ok'')) 7
        [(''prompt'', ''hi''), (''url'', ''http://a.b'')] init_db))) =
     Some \<lparr>md_chat_id = ''c1'', last_url = ''http://a.b'', last_scraped_content = ''''\<rparr> \<and>
   snd (snd (send_message (sample_env ''c2'' 5 (ScrapeOk ''page'' ''t'') (AiOk ''fine'')) 7
      [(''chat_id'', ''c1''), (''prompt'', ''more'')]
      (fst (snd (send_message (sample_env ''c1'' 1 (ScrapeOk '''' ''t'') (AiOk ''ok'')) 7
        [(''prompt'', ''hi''), (''url'', ''http://a.b'')] init_db))))) =
     [GenerateCall ''more'' None [(''user'', ''hi''), (''assistant'', ''ok'')]] \<and>
   (None :: string option) \<noteq> Some ''''"
  by (simp add: eval_defs)

text \<open>
  C7. A turn whose prompt is empty after trimming (or absent) answers 400, \<open>No data provided\<close>
  for an empty body and \<open>Prompt is required\<close> otherwise; the database is unchanged
  and no collaborator is called.
\<close>

theorem empty_prompt_rejected:
  assumes "prompt_of data = []"
  shows "send_message e uid data d =
    (Failure 400 (if data = [] then ''No data provided'' else ''Prompt is required''), d, [])"
  using assms by (simp add: send_message_def)

theorem empty_prompt_rejected_witness:
  "prompt_of [(''prompt'', ''  '')] = [] \<and>
   send_message (sample_env ''c1'' 1 (ScrapeOk ''page'' ''t'') (AiOk ''ok'')) 7
     [(''prompt'', ''  '')] init_db = (Failure 400 ''Prompt is required'', init_db, [])"
  using empty_prompt_rejected[of "[(''prompt'', ''  '')]"
      "sample_env ''c1'' 1 (ScrapeOk ''page'' ''t'') (AiOk ''ok'')" 7 init_db]
  by (simp add: strip_def dict_get_def is_space_def)

text \<open>
  C8. The preview of \<open>get_history\<close> is as the claim says (\<open>history_preview_cases\<close>).
  \<open>Chat.get_preview\<close> appends the ellipsis to every first message
  (\<open>get_preview_cases\<close>): for the content \<open>''hi''\<close> it returns \<open>''hi...''\<close> where
  \<open>get_history\<close> returns \<open>''hi''\<close>.
\<close>

theorem get_preview_short_message_gets_ellipsis:
  "get_preview \<lparr>id' = ''c1'', user_id = 7, created_at = 1, updated_at = 4,
      chat_messages = Some [\<lparr>msg_id = 1, chat_id = ''c1'', role = ''user'', content = ''hi'',
                              timestamp = 2\<rparr>]\<rparr> = ''hi...'' \<and>
   history_preview [\<lparr>msg_id = 1, chat_id = ''c1'', role = ''user'', content = ''hi'',
                      timestamp = 2\<rparr>] = ''hi''"
  by (simp add: get_preview_def history_preview_def)

text \<open>
  C9 (as amended). In every state reached from the empty database by \<open>/message\<close> and
  \<open>/new\<close> requests, a chat has at most one cache row, and each cache row is
  \<open>(c, sanitize_db_input u, sanitize_db_input k)\<close> for an earlier turn on chat \<open>c\<close>
  whose scraper call for \<open>u\<close> succeeded with content \<open>k\<close>.
\<close>

theorem cache_holds_sanitized_fetch:
  "distinct (map md_chat_id (chat_metadata (run reqs init_db))) \<and>
   (\<forall>row\<in>set (chat_metadata (run reqs init_db)).
      \<exists>(c, u, k)\<in>set (fetch_log reqs init_db).
        row = \<lparr>md_chat_id = c, last_url = sanitize_db_input u,
                last_scraped_content = sanitize_db_input k\<rparr>)"
  using cache_invariant_run[of init_db "[]" reqs] cache_keys_run[of init_db reqs]
  by (simp add: init_db_def cache_row_def)

theorem cache_holds_sanitized_fetch_witness:
  "\<lparr>md_chat_id = ''c1'', last_url = ''http://a.b'', last_scraped_content = ''page''\<rparr> \<in>
     set (chat_metadata
       (run [SendMessage (sample_env ''c1'' 1 (ScrapeOk '' page '' ''t'') (AiOk ''ok'')) 7
               [(''prompt'', ''hi''), (''url'', ''http://a.b'')]] init_db)) \<and>
   (\<exists>(c, u, k)\<in>set (fetch_log
        [SendMessage (sample_env ''c1'' 1 (ScrapeOk '' page '' ''t'') (AiOk ''ok'')) 7
               [(''prompt'', ''hi''), (''url'', ''http://a.b'')]] init_db).
      \<lparr>md_chat_id = ''c1'', last_url = ''http://a.b'', last_scraped_content = ''page''\<rparr> =
      \<lparr>md_chat_id = c, last_url = sanitize_db_input u,
        last_scraped_content = sanitize_db_input k\<rparr>)"
proof -
  let ?reqs = "[SendMessage (sample_env ''c1'' 1 (ScrapeOk '' page '' ''t'') (AiOk ''ok'')) 7
               [(''prompt'', ''hi''), (''url'', ''http://a.b'')]]"
  have mem: "\<lparr>md_chat_id = ''c1'', last_url = ''http://a.b'', last_scraped_content = ''page''\<rparr> \<in>
     set (chat_metadata (run ?reqs init_db))"
    by (simp add: eval_defs)
  show ?thesis
    using mem bspec[OF conjunct2[OF cache_holds_sanitized_fetch[of ?reqs]] mem] by blast
qed

text \<open>
  C9 as stated fails: the scraper returned \<open>'' page ''\<close> and the row holds \<open>''page''\<close>.
\<close>

theorem cache_content_modified_counterexample:
  "fetch_log [SendMessage (sample_env ''c1'' 1 (ScrapeOk '' page '' ''t'') (AiOk ''ok'')) 7
               [(''prompt'', ''hi''), (''url'', ''http://a.b'')]] init_db =
     [(''c1'', ''http://a.b'', '' page '')] \<and>
   chat_metadata
     (run [SendMessage (sample_env ''c1'' 1 (ScrapeOk '' page '' ''t'') (AiOk ''ok'')) 7
               [(''prompt'', ''hi''), (''url'', ''http://a.b'')]] init_db) =
     [\<lparr>md_chat_id = ''c1'', last_url = ''http://a.b'', last_scraped_content = ''page''\<rparr>] \<and>
   ''page'' \<noteq> '' page ''"
  by (simp add: eval_defs)

text \<open>
  C10. \<open>add_message\<close>, the only insertion into \<open>messages\<close>, stores the content with the null
  characters removed and then the outer whitespace stripped; a successful turn stores its
  two messages through it (\<open>stored_turn_rows\<close>). So the stored assistant message can
  differ from the answer in the response: the turn below answers \<open>'' ok ''\<close> and lists
  \<open>''ok''\<close>.
\<close>

theorem stored_content_is_sanitized:
  "messages (add_message cid r c now d) =
     messages d @ [\<lparr>msg_id = Suc (messages_seq d), chat_id = cid, role = r,
                    content = strip (filter (\<lambda>x. x \<noteq> CHR 0x00) c), timestamp = now\<rparr>] \<and>
   fst (send_message (sample_env ''c1'' 1 (ScrapeOk ''page'' ''t'') (AiOk '' ok '')) 7
          [(''prompt'', ''hi'')] init_db) = Success '' ok '' ''c1'' \<and>
   map content (get_chat_messages ''c1''
     (fst (snd (send_message (sample_env ''c1'' 1 (ScrapeOk ''page'' ''t'') (AiOk '' ok '')) 7
          [(''prompt'', ''hi'')] init_db)))) = [''hi'', ''ok''] \<and>
   ''ok'' \<noteq> '' ok ''"
proof -
  have "sanitize_db_input c = strip (filter (\<lambda>x. x \<noteq> CHR 0x00) c)"
    by (simp add: sanitize_db_input_def strip_def)
  then have "messages (add_message cid r c now d) =
     messages d @ [\<lparr>msg_id = Suc (messages_seq d), chat_id = cid, role = r,
                    content = strip (filter (\<lambda>x. x \<noteq> CHR 0x00) c), timestamp = now\<rparr>]"
    by (simp add: add_message_tables)
  moreover have "fst (send_message (sample_env ''c1'' 1 (ScrapeOk ''page'' ''t'') (AiOk '' ok '')) 7
          [(''prompt'', ''hi'')] init_db) = Success '' ok '' ''c1''"
    by (simp add: eval_defs)
  moreover have "map content (get_chat_messages ''c1''
     (fst (snd (send_message (sample_env ''c1'' 1 (ScrapeOk ''page'' ''t'') (AiOk '' ok '')) 7
          [(''prompt'', ''hi'')] init_db)))) = [''hi'', ''ok'']"
    by (simp add: eval_defs)
  ultimately show ?thesis by simp
qed

end
